theory Spec2Isabelle
  imports Main
begin

section \<open>Values, exceptions and the collaborators of \<open>extract_metadata.py\<close>\<close>

text \<open>
  Byte strings are lists of 8-bit characters. An exception is a value; every function
  that can raise returns \<open>exn + 'a\<close>, with \<open>Inl\<close> for the exception. \<open>TransportExc\<close>
  stands for whatever botocore or requests raise themselves (\<open>ClientError\<close>,
  \<open>ConnectionError\<close>, ...); the module defines no exception class of its own.
\<close>

type_synonym bytes = string

datatype exn =
    OSError
  | JSONDecodeError
  | AttributeError
  | IndexError
  | KeyError
  | TypeError
  | UnboundLocalError
  | ZlibError
  | ConfigError
  | TransportExc string

text \<open>
  What \<open>json.load\<close> returns: \<open>None\<close>, \<open>bool\<close>, \<open>int\<close>, \<open>float\<close>, \<open>str\<close>, \<open>list\<close> or
  \<open>dict\<close>. A \<open>dict\<close> is the list of its items in insertion order (in a value that
  \<open>json.load\<close> returns the keys are pairwise different and all of type \<open>str\<close>). No
  operation of the module looks inside a \<open>float\<close>, so \<open>JFloat\<close> carries nothing.
\<close>

datatype json =
    JNull
  | JBool bool
  | JInt int
  | JFloat
  | JStr string
  | JList "json list"
  | JDict "(string \<times> json) list"

text \<open>\<open>xs[i]\<close> on a sequence: a negative index counts from the end.\<close>

definition seq_index :: "'a list \<Rightarrow> int \<Rightarrow> exn + 'a" where
  "seq_index xs i =
     (if 0 \<le> i \<and> i < int (length xs) then Inr (xs ! nat i)
      else if i < 0 \<and> - int (length xs) \<le> i then Inr (xs ! nat (i + int (length xs)))
      else Inl IndexError)"

text \<open>
  \<open>v[key]\<close>. A \<open>dict\<close> raises \<open>KeyError\<close> for a missing key and \<open>TypeError\<close> for an
  unhashable one; a \<open>list\<close> or \<open>str\<close> takes an \<open>int\<close> (a \<open>bool\<close> is an \<open>int\<close>);
  nothing else can be subscripted.
\<close>

fun getitem :: "json \<Rightarrow> json \<Rightarrow> exn + json" where
  "getitem (JDict d) (JStr k) = (case map_of d k of None \<Rightarrow> Inl KeyError | Some v \<Rightarrow> Inr v)"
| "getitem (JDict d) (JList ys) = Inl TypeError"
| "getitem (JDict d) (JDict ys) = Inl TypeError"
| "getitem (JDict d) k = Inl KeyError"
| "getitem (JList xs) (JInt i) = seq_index xs i"
| "getitem (JList xs) (JBool b) = seq_index xs (if b then 1 else 0)"
| "getitem (JList xs) k = Inl TypeError"
| "getitem (JStr s) (JInt i) = map_sum id (\<lambda>c. JStr [c]) (seq_index s i)"
| "getitem (JStr s) (JBool b) = map_sum id (\<lambda>c. JStr [c]) (seq_index s (if b then 1 else 0))"
| "getitem (JStr s) k = Inl TypeError"
| "getitem v k = Inl TypeError"

text \<open>\<open>for key in v\<close>: the keys of a \<open>dict\<close>, the elements of a \<open>list\<close>, the characters of a \<open>str\<close>.\<close>

fun iter :: "json \<Rightarrow> exn + json list" where
  "iter (JDict d) = Inr (map (\<lambda>kv. JStr (fst kv)) d)"
| "iter (JList xs) = Inr xs"
| "iter (JStr s) = Inr (map (\<lambda>c. JStr [c]) s)"
| "iter v = Inl TypeError"

text \<open>\<open>list(v.keys())[0]\<close>: only a \<open>dict\<close> has \<open>keys\<close>; an empty one has no first key.\<close>

fun first_key :: "json \<Rightarrow> exn + string" where
  "first_key (JDict []) = Inl IndexError"
| "first_key (JDict (kv # d)) = Inr (fst kv)"
| "first_key v = Inl AttributeError"

text \<open>\<open>str(n)\<close> for an \<open>int\<close>, as an f-string formats it: decimal, with a sign when negative.\<close>

definition digit_char :: "nat \<Rightarrow> char" where
  "digit_char d = ''0123456789'' ! d"

function digits :: "nat \<Rightarrow> string" where
  "digits n = (if n < 10 then [digit_char n] else digits (n div 10) @ [digit_char (n mod 10)])"
  by pat_completeness auto
termination
  by (relation "measure (\<lambda>n. n)") auto

declare digits.simps [simp del]

definition str_int :: "int \<Rightarrow> string" where
  "str_int i = (if i < 0 then CHR ''-'' # digits (nat (- i)) else digits (nat i))"

text \<open>
  \<open>Path(url).name\<close> (POSIX flavour): the last component of the path, where empty
  components and \<open>.\<close> do not count; the empty string when there is none.
\<close>

fun split_on :: "char \<Rightarrow> string \<Rightarrow> string list" where
  "split_on sep [] = [[]]"
| "split_on sep (c # cs) =
     (if c = sep then [] # split_on sep cs
      else (case split_on sep cs of [] \<Rightarrow> [[c]] | p # ps \<Rightarrow> (c # p) # ps))"

definition path_name :: "string \<Rightarrow> string" where
  "path_name p =
     (case filter (\<lambda>c. c \<noteq> [] \<and> c \<noteq> ''.'') (split_on CHR ''/'' p) of
        [] \<Rightarrow> []
      | c # cs \<Rightarrow> last (c # cs))"

subsection \<open>Data model\<close>

text \<open>
  \<open>utils.Offset\<close> and \<open>utils.XmlMetadata\<close> are declared in \<open>utils.py\<close>; the module uses
  the fields \<open>start\<close> and \<open>stop\<close> of the first and builds the second from a name, the
  archive name and an offset, reading back its field \<open>offset\<close>.
\<close>

record offset =
  start :: int
  stop :: int

record xml_metadata =
  name :: json
  slc :: string
  offset :: offset

text \<open>
  Modelled from the spec: the constructor \<open>utils.Offset\<close>, whose source (\<open>utils.py\<close>) is
  not among the files at hand. The spec's data model: a range is
  \<open>{start: integer, stop: integer > start}\<close>, and "\<open>stop > start\<close> always; violating this
  is a construction error", classed as \<open>ConfigError\<close> together with every other
  malformed offset-table description. A field that is not an integer is such a
  malformed description.
\<close>

fun Offset :: "json \<Rightarrow> json \<Rightarrow> exn + offset" where
  "Offset (JInt a) (JInt b) =
     (if b \<le> a then Inl ConfigError else Inr \<lparr>start = a, stop = b\<rparr>)"
| "Offset a b = Inl ConfigError"

subsection \<open>The environment\<close>

text \<open>
  Both clients and what they return. \<open>BaseClient\<close> holds the three credentials it was
  created with; \<open>OtherObject\<close> is any Python object that is neither a botocore client
  nor a requests session. A response of \<open>requests\<close> has a status and a body.
\<close>

datatype client = BaseClient string string string | Session | OtherObject

record response =
  status_code :: nat
  content :: bytes

text \<open>The calls that reach a server, as the module issues them.\<close>

datatype request =
    GetObject string string string
  | HttpGet string string

fun range_of :: "request \<Rightarrow> string" where
  "range_of (GetObject bucket key rng) = rng"
| "range_of (HttpGet url rng) = rng"

text \<open>
  Everything the module calls and does not define, as parameters:
  \<^item> \<open>BUCKET\<close>: the constant \<open>utils.BUCKET\<close>;
  \<^item> \<open>get_download_url\<close>, \<open>get_credentials\<close>: the two providers of \<open>utils\<close>;
  \<^item> \<open>load_json\<close>: \<open>open(path)\<close> followed by \<open>json.load\<close>;
  \<^item> \<open>get_object\<close>: \<open>client.get_object(Bucket, Key, Range)\<close> of a client with the given
    credentials; it raises, or returns a response whose \<open>Body.read()\<close> raises or
    returns bytes;
  \<^item> \<open>http_get\<close>: \<open>session.get(url, headers={'Range': ...})\<close>; it raises or returns a
    response, whatever its status;
  \<^item> \<open>decompress\<close>: \<open>zlib.decompressobj(-zlib.MAX_WBITS).decompress\<close>.
  Each is a function of its arguments: a server answers the same request the same way
  for the duration of one run.
\<close>

record env =
  BUCKET :: string
  get_download_url :: "string \<Rightarrow> exn + string"
  get_credentials :: "exn + (string \<times> string) list"
  load_json :: "string \<Rightarrow> exn + json"
  get_object :: "string \<times> string \<times> string \<Rightarrow> string \<Rightarrow> string \<Rightarrow> string \<Rightarrow> exn + (exn + bytes)"
  http_get :: "string \<Rightarrow> string \<Rightarrow> exn + response"
  decompress :: "bytes \<Rightarrow> exn + bytes"

text \<open>
  What a run leaves behind: the requests that were sent (those of the pool in the order
  in which its tasks complete) and the files. \<open>open(path, 'wb')\<close> followed by \<open>write\<close> replaces the file's content.
\<close>

record world =
  requests :: "request list"
  files :: "string \<Rightarrow> bytes option"

section \<open>The module\<close>

subsection \<open>\<open>extract_bytes\<close>\<close>

text \<open>
  The result is paired with the requests the call has sent. With a client of neither
  type no branch assigns \<open>body\<close>, and reading it raises \<open>UnboundLocalError\<close>.
\<close>

definition range_header :: "offset \<Rightarrow> string" where
  "range_header off = ''bytes='' @ str_int (start off) @ ''-'' @ str_int (stop off - 1)"

definition extract_bytes :: "env \<Rightarrow> string \<Rightarrow> offset \<Rightarrow> client \<Rightarrow> request list \<times> (exn + bytes)" where
  "extract_bytes E url off cl =
     (case cl of
        BaseClient ak sk tok \<Rightarrow>
          ([GetObject (BUCKET E) (path_name url) (range_header off)],
           case get_object E (ak, sk, tok) (BUCKET E) (path_name url) (range_header off) of
             Inl e \<Rightarrow> Inl e
           | Inr resp \<Rightarrow> (case resp of Inl e \<Rightarrow> Inl e | Inr body \<Rightarrow> decompress E body))
      | Session \<Rightarrow>
          ([HttpGet url (range_header off)],
           case http_get E url (range_header off) of
             Inl e \<Rightarrow> Inl e
           | Inr resp \<Rightarrow> decompress E (content resp))
      | OtherObject \<Rightarrow> ([], Inl UnboundLocalError))"

subsection \<open>\<open>json_to_metadata_entries\<close>\<close>

text \<open>The loop over the keys, with \<open>xml_metadatas\<close> as the accumulator.\<close>

fun append_entries :: "json \<Rightarrow> string \<Rightarrow> json list \<Rightarrow> xml_metadata list \<Rightarrow> exn + xml_metadata list" where
  "append_entries metadata_dict slc_name [] xml_metadatas = Inr xml_metadatas"
| "append_entries metadata_dict slc_name (key # keys) xml_metadatas =
     (case getitem metadata_dict key of Inl e \<Rightarrow> Inl e | Inr entry \<Rightarrow>
      case getitem entry (JStr ''offset_start'') of Inl e \<Rightarrow> Inl e | Inr a \<Rightarrow>
      case getitem entry (JStr ''offset_stop'') of Inl e \<Rightarrow> Inl e | Inr b \<Rightarrow>
      case Offset a b of Inl e \<Rightarrow> Inl e | Inr off \<Rightarrow>
        append_entries metadata_dict slc_name keys
          (xml_metadatas @ [\<lparr>name = key, slc = slc_name, offset = off\<rparr>]))"

definition json_to_metadata_entries :: "env \<Rightarrow> string \<Rightarrow> exn + xml_metadata list" where
  "json_to_metadata_entries E json_path =
     (case load_json E json_path of Inl e \<Rightarrow> Inl e | Inr metadata_dict \<Rightarrow>
      case first_key metadata_dict of Inl e \<Rightarrow> Inl e | Inr slc_name \<Rightarrow>
      case getitem metadata_dict (JStr slc_name) of Inl e \<Rightarrow> Inl e | Inr inner \<Rightarrow>
      case iter inner of Inl e \<Rightarrow> Inl e | Inr keys \<Rightarrow>
        append_entries inner slc_name keys [])"

subsection \<open>The thread pool\<close>

text \<open>
  \<open>executor.map(f, ...)\<close> submits one task per argument, in order, and keeps the list of
  their futures; a future is pending (\<open>None\<close>) until its task has run. The order in which
  tasks complete is not the program's choice: it is the schedule \<open>sch\<close>, a list of task
  indices. Completing task \<open>i\<close> records the requests it has sent and stores its outcome
  in future \<open>i\<close>; an index that is no task's is skipped. The pool's twenty workers only
  restrict which orders can occur; the properties below are proved for all of them.
\<close>

type_synonym future = "(exn + bytes) option"

definition complete :: "('a \<Rightarrow> request list \<times> (exn + bytes)) \<Rightarrow> 'a list \<Rightarrow> nat \<Rightarrow>
    request list \<times> future list \<Rightarrow> request list \<times> future list" where
  "complete f xs i st =
     (if i < length xs
      then (fst st @ fst (f (xs ! i)), (snd st)[i := Some (snd (f (xs ! i)))])
      else st)"

definition executor_map :: "('a \<Rightarrow> request list \<times> (exn + bytes)) \<Rightarrow> 'a list \<Rightarrow> nat list \<Rightarrow>
    request list \<times> future list" where
  "executor_map f xs sch = fold (complete f xs) sch ([], replicate (length xs) None)"

text \<open>
  \<open>list(...)\<close> over the iterator that \<open>executor.map\<close> returns: it takes the futures in
  submission order, waits for each, and re-raises the exception of the first one whose
  task raised. Waiting for a task that never runs does not return: \<open>None\<close>. (When a
  result raises, Python cancels the tasks that have not started; that can only take
  requests away from the record, so every scheduled task is taken to run.)
\<close>

fun results :: "future list \<Rightarrow> (exn + bytes list) option" where
  "results [] = Some (Inr [])"
| "results (None # fs) = None"
| "results (Some (Inl e) # fs) = Some (Inl e)"
| "results (Some (Inr b) # fs) =
     (case results fs of
        None \<Rightarrow> None
      | Some (Inl e) \<Rightarrow> Some (Inl e)
      | Some (Inr bs) \<Rightarrow> Some (Inr (b # bs)))"

text \<open>A schedule in which each of the \<open>n\<close> tasks completes exactly once.\<close>

definition completion_order :: "nat \<Rightarrow> nat list \<Rightarrow> bool" where
  "completion_order n sch \<longleftrightarrow> sort sch = [0..<n]"

subsection \<open>\<open>extract_metadata\<close>\<close>

text \<open>
  The choice of the client. With a strategy that is neither \<open>'s3'\<close> nor \<open>'http'\<close> no
  branch assigns \<open>client\<close>: the result is \<open>None\<close>.
\<close>

definition select_client :: "env \<Rightarrow> string \<Rightarrow> exn + client option" where
  "select_client E strategy =
     (if strategy = ''s3'' then
        (case get_credentials E of Inl e \<Rightarrow> Inl e | Inr creds \<Rightarrow>
         case map_of creds ''accessKeyId'' of None \<Rightarrow> Inl KeyError | Some ak \<Rightarrow>
         case map_of creds ''secretAccessKey'' of None \<Rightarrow> Inl KeyError | Some sk \<Rightarrow>
         case map_of creds ''sessionToken'' of None \<Rightarrow> Inl KeyError | Some tok \<Rightarrow>
           Inr (Some (BaseClient ak sk tok)))
      else if strategy = ''http'' then Inr (Some Session)
      else Inr None)"

text \<open>
  The whole operation, from a world \<open>w\<close>, under a schedule \<open>sch\<close> of the pool. The result is
  \<open>None\<close> when the operation does not return. Reading the unassigned \<open>client\<close> in the
  arguments of \<open>executor.map\<close> raises before any task is submitted.
\<close>

definition extract_metadata :: "env \<Rightarrow> nat list \<Rightarrow> string \<Rightarrow> string \<Rightarrow> string \<Rightarrow> world \<Rightarrow>
    ((exn + unit) \<times> world) option" where
  "extract_metadata E sch slc_name json_file_path strategy w =
     (case get_download_url E slc_name of Inl e \<Rightarrow> Some (Inl e, w) | Inr url \<Rightarrow>
      case json_to_metadata_entries E json_file_path of Inl e \<Rightarrow> Some (Inl e, w) | Inr metadatas \<Rightarrow>
      let offsets = map offset metadatas in
      case select_client E strategy of Inl e \<Rightarrow> Some (Inl e, w) | Inr assigned \<Rightarrow>
      case assigned of None \<Rightarrow> Some (Inl UnboundLocalError, w) | Some cl \<Rightarrow>
      let pool = executor_map (\<lambda>off. extract_bytes E url off cl) offsets sch;
          w1 = w\<lparr>requests := requests w @ fst pool\<rparr> in
      case results (snd pool) of
        None \<Rightarrow> None
      | Some (Inl e) \<Rightarrow> Some (Inl e, w1)
      | Some (Inr bufs) \<Rightarrow>
          Some (Inr (), w1\<lparr>files := (files w1)(slc_name @ ''.xml'' \<mapsto> concat bufs)\<rparr>))"

section \<open>The range-request protocol\<close>

text \<open>
  The value of a \<open>Range\<close> header for one byte range is \<open>bytes=first-last\<close>, two
  decimal byte positions, both of which belong to the range. \<open>wire_range\<close> reads such a
  value back; it is the protocol's side of the comparison, not part of the module.
\<close>

definition is_digit :: "char \<Rightarrow> bool" where
  "is_digit c \<longleftrightarrow> c \<in> set ''0123456789''"

definition nat_of_decimal :: "string \<Rightarrow> nat" where
  "nat_of_decimal ds = foldl (\<lambda>n c. 10 * n + (of_char c - 48)) 0 ds"

definition wire_range :: "string \<Rightarrow> (nat \<times> nat) option" where
  "wire_range h =
     (if take 6 h = ''bytes='' then
        (let r = drop 6 h; a = takeWhile is_digit r in
         case dropWhile is_digit r of
           [] \<Rightarrow> None
         | c # b \<Rightarrow>
             if c = CHR ''-'' \<and> a \<noteq> [] \<and> b \<noteq> [] \<and> list_all is_digit b
             then Some (nat_of_decimal a, nat_of_decimal b) else None)
      else None)"

section \<open>Observing a run\<close>

definition outcome :: "((exn + unit) \<times> world) option \<Rightarrow> (exn + unit) option" where
  "outcome run = map_option fst run"

definition requests_after :: "((exn + unit) \<times> world) option \<Rightarrow> request list option" where
  "requests_after run = map_option (\<lambda>r. requests (snd r)) run"

definition file_after :: "((exn + unit) \<times> world) option \<Rightarrow> string \<Rightarrow> bytes option" where
  "file_after run path = (case run of None \<Rightarrow> None | Some r \<Rightarrow> files (snd r) path)"

section \<open>A mock archive\<close>

text \<open>
  The scenario of the specification: an archive of thirty bytes whose ranges \<open>[0,10)\<close> and
  \<open>[10,20)\<close> hold two raw streams that decode to \<open>AAAA\<close> and \<open>BBBB\<close>. Reading the
  range \<open>[20,30)\<close> breaks the connection; a range beyond the archive is answered with
  status 416 and an empty body, on which \<open>decompress\<close> returns the empty byte string, as
  zlib's decompression object does. The offset tables are chosen by path.
\<close>

definition fragment :: "int \<Rightarrow> int \<Rightarrow> json" where
  "fragment a b = JDict [(''offset_start'', JInt a), (''offset_stop'', JInt b)]"

definition table_ab :: json where
  "table_ab = JDict [(''ARCHIVE1'', JDict [(''a'', fragment 0 10), (''b'', fragment 10 20)])]"

definition table_abc :: json where
  "table_abc = JDict [(''ARCHIVE1'',
     JDict [(''a'', fragment 0 10), (''b'', fragment 10 20), (''c'', fragment 20 30)])]"

definition table_no_fragments :: json where
  "table_no_fragments = JDict [(''ARCHIVE1'', JDict [])]"

definition table_backwards :: json where
  "table_backwards = JDict [(''ARCHIVE1'', JDict [(''a'', fragment 0 10), (''b'', fragment 20 20)])]"

definition table_two_archives :: json where
  "table_two_archives = JDict [(''ARCHIVE1'', JDict [(''a'', fragment 0 10), (''b'', fragment 10 20)]),
     (''ARCHIVE2'', JDict [(''z'', fragment 0 5)])]"

definition mock_load_json :: "string \<Rightarrow> exn + json" where
  "mock_load_json path =
     (if path = ''ab.json'' then Inr table_ab
      else if path = ''abc.json'' then Inr table_abc
      else if path = ''no_fragments.json'' then Inr table_no_fragments
      else if path = ''backwards.json'' then Inr table_backwards
      else if path = ''two_archives.json'' then Inr table_two_archives
      else if path = ''empty.json'' then Inr (JDict [])
      else if path = ''broken.json'' then Inl JSONDecodeError
      else Inl OSError)"

definition mock_http_get :: "string \<Rightarrow> string \<Rightarrow> exn + response" where
  "mock_http_get url rng =
     (if rng = ''bytes=0-9'' then Inr \<lparr>status_code = 206, content = ''raw stream a''\<rparr>
      else if rng = ''bytes=10-19'' then Inr \<lparr>status_code = 206, content = ''raw stream b''\<rparr>
      else if rng = ''bytes=20-29'' then Inl (TransportExc ''connection reset'')
      else Inr \<lparr>status_code = 416, content = []\<rparr>)"

definition mock_get_object :: "string \<times> string \<times> string \<Rightarrow> string \<Rightarrow> string \<Rightarrow> string \<Rightarrow> exn + (exn + bytes)" where
  "mock_get_object creds bucket key rng =
     (if rng = ''bytes=0-9'' then Inr (Inr ''raw stream a'')
      else if rng = ''bytes=10-19'' then Inr (Inr ''raw stream b'')
      else if rng = ''bytes=20-29'' then Inr (Inl (TransportExc ''connection reset''))
      else Inl (TransportExc ''InvalidRange''))"

definition mock_decompress :: "bytes \<Rightarrow> exn + bytes" where
  "mock_decompress body =
     (if body = ''raw stream a'' then Inr ''AAAA''
      else if body = ''raw stream b'' then Inr ''BBBB''
      else if body = [] then Inr []
      else Inl ZlibError)"

definition mock_url :: "string \<Rightarrow> exn + string" where
  "mock_url slc_name = Inr (''https://archive.example/SLC/'' @ slc_name @ ''.zip'')"

definition mock_env :: env where
  "mock_env = \<lparr>BUCKET = ''archive-bucket'',
     get_download_url = mock_url,
     get_credentials = Inr [(''accessKeyId'', ''id''), (''secretAccessKey'', ''key''), (''sessionToken'', ''token'')],
     load_json = mock_load_json,
     get_object = mock_get_object,
     http_get = mock_http_get,
     decompress = mock_decompress\<rparr>"

definition no_files :: "string \<Rightarrow> bytes option" where
  "no_files path = None"

definition fresh_world :: world where
  "fresh_world = \<lparr>requests = [], files = no_files\<rparr>"

section \<open>Properties of the thread pool\<close>

text \<open>
  Completing a task fills its own future and no other; once every task has completed,
  future \<open>i\<close> holds the outcome of task \<open>i\<close>, whatever the order of completion.
\<close>

lemma complete_length: "length (snd (complete f xs i st)) = length (snd st)"
  by (simp add: complete_def)

lemma fold_complete_length: "length (snd (fold (complete f xs) sch st)) = length (snd st)"
  by (induction sch arbitrary: st) (simp_all add: complete_length)

lemma complete_nth:
  assumes "i < length xs" and "length (snd st) = length xs"
  shows "snd (complete f xs j st) ! i = (if i = j then Some (snd (f (xs ! i))) else snd st ! i)"
  using assms by (auto simp: complete_def nth_list_update)

lemma fold_complete_nth:
  assumes "i < length xs" and "length (snd st) = length xs"
  shows "snd (fold (complete f xs) sch st) ! i =
         (if i \<in> set sch then Some (snd (f (xs ! i))) else snd st ! i)"
  using assms
proof (induction sch arbitrary: st rule: rev_induct)
  case Nil
  then show ?case by simp
next
  case (snoc j sch)
  have len: "length (snd (fold (complete f xs) sch st)) = length xs"
    using snoc.prems(2) by (simp add: fold_complete_length)
  show ?case
    using snoc.IH [OF snoc.prems] complete_nth [OF snoc.prems(1) len]
    by simp
qed

lemma completion_order_set: "completion_order n sch \<Longrightarrow> set sch = {..<n}"
proof -
  assume "completion_order n sch"
  then have "set (sort sch) = set [0..<n]"
    by (simp add: completion_order_def)
  then show ?thesis by (simp add: atLeast0LessThan)
qed

lemma executor_map_futures:
  assumes "completion_order (length xs) sch"
  shows "snd (executor_map f xs sch) = map (\<lambda>x. Some (snd (f x))) xs"
proof (rule nth_equalityI)
  show "length (snd (executor_map f xs sch)) = length (map (\<lambda>x. Some (snd (f x))) xs)"
    by (simp add: executor_map_def fold_complete_length)
next
  fix i assume "i < length (snd (executor_map f xs sch))"
  then have i: "i < length xs"
    by (simp add: executor_map_def fold_complete_length)
  then have "i \<in> set sch"
    using completion_order_set [OF assms] by simp
  then show "snd (executor_map f xs sch) ! i = map (\<lambda>x. Some (snd (f x))) xs ! i"
    using i by (simp add: executor_map_def fold_complete_nth)
qed

lemma results_all_done:
  "\<forall>r \<in> set rs. \<exists>b. r = Inr b \<Longrightarrow> results (map Some rs) = Some (Inr (map projr rs))"
  by (induction rs) auto

lemma results_some_raised:
  "Inl e \<in> set rs \<Longrightarrow> \<exists>e'. Inl e' \<in> set rs \<and> results (map Some rs) = Some (Inl e')"
proof (induction rs)
  case Nil
  then show ?case by simp
next
  case (Cons r rs)
  show ?case
  proof (cases r)
    case (Inl a)
    then show ?thesis by auto
  next
    case (Inr b)
    with Cons.prems have "Inl e \<in> set rs" by auto
    from Cons.IH [OF this] obtain e' where "Inl e' \<in> set rs" "results (map Some rs) = Some (Inl e')"
      by blast
    with Inr show ?thesis by auto
  qed
qed

lemma pool_all_done:
  assumes "completion_order (length xs) sch"
    and "\<forall>x \<in> set xs. \<exists>b. snd (f x) = Inr b"
  shows "results (snd (executor_map f xs sch)) = Some (Inr (map (\<lambda>x. projr (snd (f x))) xs))"
proof -
  have "\<forall>r \<in> set (map (\<lambda>x. snd (f x)) xs). \<exists>b. r = Inr b"
    using assms(2) by auto
  from results_all_done [OF this] executor_map_futures [OF assms(1), of f]
  show ?thesis by (simp add: comp_def)
qed

lemma pool_some_raised:
  assumes "completion_order (length xs) sch"
    and "x \<in> set xs" and "snd (f x) = Inl e"
  shows "\<exists>e'. results (snd (executor_map f xs sch)) = Some (Inl e')"
proof -
  have "Inl e \<in> set (map (\<lambda>x. snd (f x)) xs)"
    using assms(2,3) by force
  from results_some_raised [OF this] executor_map_futures [OF assms(1), of f]
  show ?thesis by (auto simp: comp_def)
qed

section \<open>Properties of the offset table\<close>

text \<open>
  The loop appends one entry per key, in the order of the keys, each carrying the
  archive name; it stops at the first entry that cannot be built.
\<close>

lemma append_entries_names:
  "append_entries md s keys acc = Inr ms \<Longrightarrow> map name ms = map name acc @ keys"
  by (induction keys arbitrary: acc) (auto split: sum.splits)

lemma append_entries_slc:
  "append_entries md s keys acc = Inr ms \<Longrightarrow> \<forall>m \<in> set acc. slc m = s \<Longrightarrow> \<forall>m \<in> set ms. slc m = s"
  by (induction keys arbitrary: acc) (auto split: sum.splits)

lemma append_entries_rejects:
  assumes "key \<in> set keys"
    and "getitem md key = Inr entry"
    and "getitem entry (JStr ''offset_start'') = Inr (JInt a)"
    and "getitem entry (JStr ''offset_stop'') = Inr (JInt b)"
    and "b \<le> a"
  shows "\<exists>e. append_entries md s keys acc = Inl e"
  using assms(1)
proof (induction keys arbitrary: acc)
  case Nil
  then show ?case by simp
next
  case (Cons k keys)
  show ?case
  proof (cases "k = key")
    case True
    then show ?thesis using assms(2-5) by simp
  next
    case False
    with Cons.prems have "key \<in> set keys" by simp
    from Cons.IH [OF this] show ?thesis
      by (auto split: sum.splits)
  qed
qed

lemma entries_of_table:
  assumes "load_json E path = Inr (JDict ((k, JDict d) # rest))"
  shows "json_to_metadata_entries E path =
           append_entries (JDict d) k (map (\<lambda>kv. JStr (fst kv)) d) []"
  using assms by (simp add: json_to_metadata_entries_def)

lemma entries_of_first_key:
  assumes "load_json E path = Inr (JDict ((k, v) # rest))"
  shows "json_to_metadata_entries E path =
           (case iter v of Inl e \<Rightarrow> Inl e | Inr keys \<Rightarrow> append_entries v k keys [])"
  using assms by (simp add: json_to_metadata_entries_def)

lemma entries_failure_aborts:
  assumes "json_to_metadata_entries E path = Inl e"
  shows "\<exists>e'. extract_metadata E sch slc_name path strategy w = Some (Inl e', w)"
  using assms by (simp add: extract_metadata_def split: sum.splits)

section \<open>Decimal byte positions\<close>

text \<open>Reading back what \<open>digits\<close> prints gives the number printed.\<close>

lemma digit_char_props:
  assumes "d < 10"
  shows "is_digit (digit_char d)" and "of_char (digit_char d) - 48 = d"
proof -
  have "d = 0 \<or> d = 1 \<or> d = 2 \<or> d = 3 \<or> d = 4 \<or> d = 5 \<or> d = 6 \<or> d = 7 \<or> d = 8 \<or> d = 9"
    using assms by arith
  then show "is_digit (digit_char d)" "of_char (digit_char d) - 48 = d"
    by (auto simp: digit_char_def is_digit_def)
qed

lemma digits_nonempty: "digits n \<noteq> []"
  by (subst digits.simps) simp

lemma digits_all_digit: "list_all is_digit (digits n)"
proof (induction n rule: digits.induct)
  case (1 n)
  show ?case
  proof (cases "n < 10")
    case True
    then show ?thesis by (subst digits.simps) (simp add: digit_char_props)
  next
    case False
    then show ?thesis
      using "1.IH" by (subst digits.simps) (simp add: digit_char_props)
  qed
qed

lemma nat_of_decimal_snoc:
  "nat_of_decimal (ds @ [c]) = 10 * nat_of_decimal ds + (of_char c - 48)"
  by (simp add: nat_of_decimal_def)

lemma nat_of_decimal_digits: "nat_of_decimal (digits n) = n"
proof (induction n rule: digits.induct)
  case (1 n)
  show ?case
  proof (cases "n < 10")
    case True
    then show ?thesis
      by (subst digits.simps) (simp add: nat_of_decimal_def digit_char_props)
  next
    case False
    then have "nat_of_decimal (digits n) = 10 * (n div 10) + n mod 10"
      using "1.IH" by (subst digits.simps) (simp add: nat_of_decimal_snoc digit_char_props)
    then show ?thesis by simp
  qed
qed

lemma wire_range_digits:
  "wire_range (''bytes='' @ digits a @ ''-'' @ digits b) = Some (a, b)"
proof -
  have nd: "\<not> is_digit CHR ''-''" by (simp add: is_digit_def)
  have all: "\<And>n x. x \<in> set (digits n) \<Longrightarrow> is_digit x"
    using digits_all_digit by (simp add: list_all_iff)
  have tw: "takeWhile is_digit (digits a @ CHR ''-'' # digits b) = digits a"
    using all nd by (simp add: takeWhile_append2)
  have dw: "dropWhile is_digit (digits a @ CHR ''-'' # digits b) = CHR ''-'' # digits b"
    using all nd by (simp add: dropWhile_append2)
  show ?thesis
    using tw dw by (simp add: wire_range_def digits_nonempty digits_all_digit nat_of_decimal_digits)
qed

section \<open>The mock archive, evaluated\<close>

lemma mock_url_archive1:
  "get_download_url mock_env ''ARCHIVE1'' = Inr ''https://archive.example/SLC/ARCHIVE1.zip''"
  by (simp add: mock_env_def mock_url_def)

lemma mock_select_http: "select_client mock_env ''http'' = Inr (Some Session)"
  by (simp add: select_client_def)

lemma mock_entries_ab:
  "json_to_metadata_entries mock_env ''ab.json'' =
     Inr [\<lparr>name = JStr ''a'', slc = ''ARCHIVE1'', offset = \<lparr>start = 0, stop = 10\<rparr>\<rparr>,
          \<lparr>name = JStr ''b'', slc = ''ARCHIVE1'', offset = \<lparr>start = 10, stop = 20\<rparr>\<rparr>]"
  by (simp add: json_to_metadata_entries_def mock_env_def mock_load_json_def table_ab_def fragment_def)

lemma mock_entries_abc:
  "json_to_metadata_entries mock_env ''abc.json'' =
     Inr [\<lparr>name = JStr ''a'', slc = ''ARCHIVE1'', offset = \<lparr>start = 0, stop = 10\<rparr>\<rparr>,
          \<lparr>name = JStr ''b'', slc = ''ARCHIVE1'', offset = \<lparr>start = 10, stop = 20\<rparr>\<rparr>,
          \<lparr>name = JStr ''c'', slc = ''ARCHIVE1'', offset = \<lparr>start = 20, stop = 30\<rparr>\<rparr>]"
  by (simp add: json_to_metadata_entries_def mock_env_def mock_load_json_def table_abc_def fragment_def)

lemma mock_entries_backwards:
  "json_to_metadata_entries mock_env ''backwards.json'' = Inl ConfigError"
  by (simp add: json_to_metadata_entries_def mock_env_def mock_load_json_def table_backwards_def fragment_def)

lemma mock_range_headers:
  "range_header \<lparr>start = 0, stop = 10\<rparr> = ''bytes=0-9''"
  "range_header \<lparr>start = 10, stop = 20\<rparr> = ''bytes=10-19''"
  "range_header \<lparr>start = 20, stop = 30\<rparr> = ''bytes=20-29''"
  by (simp_all add: range_header_def str_int_def digits.simps digit_char_def)

lemma mock_fetch_http:
  "snd (extract_bytes mock_env u \<lparr>start = 0, stop = 10\<rparr> Session) = Inr ''AAAA''"
  "snd (extract_bytes mock_env u \<lparr>start = 10, stop = 20\<rparr> Session) = Inr ''BBBB''"
  "snd (extract_bytes mock_env u \<lparr>start = 20, stop = 30\<rparr> Session) = Inl (TransportExc ''connection reset'')"
  by (simp_all add: extract_bytes_def mock_range_headers mock_env_def mock_http_get_def mock_decompress_def)

lemma mock_requests_http:
  "fst (extract_bytes mock_env u off Session) = [HttpGet u (range_header off)]"
  by (simp add: extract_bytes_def)

lemma completion_order_b_first: "completion_order 2 [1, 0]"
  by (simp add: completion_order_def upt_rec numeral_2_eq_2)

lemma completion_order_c_first: "completion_order 3 [2, 0, 1]"
  by (simp add: completion_order_def upt_rec numeral_3_eq_3)

lemma mock_run_abc:
  "extract_metadata mock_env [2, 0, 1] ''ARCHIVE1'' ''abc.json'' ''http'' fresh_world
     = Some (Inl (TransportExc ''connection reset''),
         fresh_world\<lparr>requests :=
           [HttpGet ''https://archive.example/SLC/ARCHIVE1.zip'' ''bytes=20-29'',
            HttpGet ''https://archive.example/SLC/ARCHIVE1.zip'' ''bytes=0-9'',
            HttpGet ''https://archive.example/SLC/ARCHIVE1.zip'' ''bytes=10-19'']\<rparr>)"
  by (simp add: extract_metadata_def mock_url_archive1 mock_entries_abc mock_select_http
      executor_map_def complete_def mock_fetch_http mock_requests_http mock_range_headers
      fresh_world_def)

lemma mock_run_backwards:
  "extract_metadata mock_env [0, 1] ''ARCHIVE1'' ''backwards.json'' ''http'' fresh_world
     = Some (Inl ConfigError, fresh_world)"
  by (simp add: extract_metadata_def mock_url_archive1 mock_entries_backwards)

section \<open>The claims\<close>

subsection \<open>Order of the output\<close>

text \<open>
  C1. Let the fragment set be built from the offset table, let every fetch and decode
  succeed, and let the tasks of the pool complete in any order in which each completes
  once. Then the fragments are in the order in which the table declares them, the pool
  hands back the decoded buffers in the order of the fragments, and the file
  \<open><slc_name>.xml\<close> holds the concatenation, in that order, of what \<open>extract_bytes\<close>
  returns for each fragment. The right-hand sides do not mention the schedule.
\<close>

theorem extract_metadata_input_order:
  assumes "get_download_url E slc_name = Inr url"
    and "load_json E path = Inr (JDict ((k, JDict d) # rest))"
    and "json_to_metadata_entries E path = Inr metadatas"
    and "select_client E strategy = Inr (Some cl)"
    and "completion_order (length metadatas) sch"
    and "\<forall>m \<in> set metadatas. \<exists>b. snd (extract_bytes E url (offset m) cl) = Inr b"
  shows "map name metadatas = map (\<lambda>kv. JStr (fst kv)) d
       \<and> results (snd (executor_map (\<lambda>off. extract_bytes E url off cl) (map offset metadatas) sch))
           = Some (Inr (map (\<lambda>m. projr (snd (extract_bytes E url (offset m) cl))) metadatas))
       \<and> (\<exists>w'. extract_metadata E sch slc_name path strategy w = Some (Inr (), w')
            \<and> files w' = (files w)(slc_name @ ''.xml'' \<mapsto>
                 concat (map (\<lambda>m. projr (snd (extract_bytes E url (offset m) cl))) metadatas)))"
proof -
  let ?f = "\<lambda>off. extract_bytes E url off cl"
  have names: "map name metadatas = map (\<lambda>kv. JStr (fst kv)) d"
    using append_entries_names [of "JDict d" k "map (\<lambda>kv. JStr (fst kv)) d" "[]" metadatas]
      entries_of_table [OF assms(2)] assms(3) by simp
  have ord: "completion_order (length (map offset metadatas)) sch"
    using assms(5) by simp
  have ok: "\<forall>x \<in> set (map offset metadatas). \<exists>b. snd (?f x) = Inr b"
    using assms(6) by simp
  have pool: "results (snd (executor_map ?f (map offset metadatas) sch))
      = Some (Inr (map (\<lambda>m. projr (snd (extract_bytes E url (offset m) cl))) metadatas))"
    using pool_all_done [OF ord ok] by (simp add: comp_def)
  have run: "\<exists>w'. extract_metadata E sch slc_name path strategy w = Some (Inr (), w')
            \<and> files w' = (files w)(slc_name @ ''.xml'' \<mapsto>
                 concat (map (\<lambda>m. projr (snd (extract_bytes E url (offset m) cl))) metadatas))"
    using pool assms(1,3,4) by (simp add: extract_metadata_def Let_def)
  show ?thesis using names pool run by blast
qed

text \<open>
  The scenario of the specification, with fragment \<open>b\<close> completing before fragment \<open>a\<close>:
  the file holds \<open>AAAABBBB\<close>.
\<close>

theorem extract_metadata_input_order_witness:
  "select_client mock_env ''http'' = Inr (Some Session)
   \<and> completion_order 2 [1, 0]
   \<and> file_after (extract_metadata mock_env [1, 0] ''ARCHIVE1'' ''ab.json'' ''http'' fresh_world) ''ARCHIVE1.xml''
       = Some ''AAAABBBB''"
proof -
  have sel: "select_client mock_env ''http'' = Inr (Some Session)"
    by (simp add: select_client_def)
  have url: "get_download_url mock_env ''ARCHIVE1'' = Inr ''https://archive.example/SLC/ARCHIVE1.zip''"
    by (simp add: mock_env_def mock_url_def)
  have tbl: "load_json mock_env ''ab.json'' = Inr (JDict ((''ARCHIVE1'',
      JDict [(''a'', fragment 0 10), (''b'', fragment 10 20)]) # []))"
    by (simp add: mock_env_def mock_load_json_def table_ab_def)
  have ord: "completion_order (length [\<lparr>name = JStr ''a'', slc = ''ARCHIVE1'', offset = \<lparr>start = 0, stop = 10\<rparr>\<rparr>,
          \<lparr>name = JStr ''b'', slc = ''ARCHIVE1'', offset = \<lparr>start = 10, stop = 20\<rparr>\<rparr>]) [1, 0]"
    by (simp add: completion_order_def upt_rec numeral_2_eq_2)
  show ?thesis
    using extract_metadata_input_order [OF url tbl mock_entries_ab sel ord, of fresh_world]
      completion_order_b_first sel
    by (auto simp: mock_fetch_http file_after_def)
qed

subsection \<open>Failure of one fragment\<close>

text \<open>
  C2. If \<open>extract_bytes\<close> raises for one fragment of the set, whether in the fetch or in
  the decode, then under every schedule in which each task completes once the whole
  operation raises, and the files are what they were before: the output file is not
  created and the buffers of the other fragments are dropped.
\<close>

theorem extract_metadata_fail_fast:
  assumes "get_download_url E slc_name = Inr url"
    and "json_to_metadata_entries E path = Inr metadatas"
    and "select_client E strategy = Inr (Some cl)"
    and "completion_order (length metadatas) sch"
    and "m \<in> set metadatas"
    and "snd (extract_bytes E url (offset m) cl) = Inl e"
  shows "\<exists>e' w'. extract_metadata E sch slc_name path strategy w = Some (Inl e', w')
            \<and> files w' = files w"
proof -
  let ?f = "\<lambda>off. extract_bytes E url off cl"
  have ord: "completion_order (length (map offset metadatas)) sch"
    using assms(4) by simp
  have mem: "offset m \<in> set (map offset metadatas)"
    using assms(5) by simp
  from pool_some_raised [OF ord mem, of ?f e] assms(6)
  obtain e' where "results (snd (executor_map ?f (map offset metadatas) sch)) = Some (Inl e')"
    by auto
  then show ?thesis
    using assms(1,2,3) by (simp add: extract_metadata_def Let_def)
qed

text \<open>
  Three fragments, the third of which loses its connection; it completes first, the
  other two complete afterwards with their buffers, and no file is written.
\<close>

theorem extract_metadata_fail_fast_witness:
  "snd (extract_bytes mock_env ''https://archive.example/SLC/ARCHIVE1.zip'' \<lparr>start = 20, stop = 30\<rparr> Session)
     = Inl (TransportExc ''connection reset'')
   \<and> completion_order 3 [2, 0, 1]
   \<and> outcome (extract_metadata mock_env [2, 0, 1] ''ARCHIVE1'' ''abc.json'' ''http'' fresh_world)
       = Some (Inl (TransportExc ''connection reset''))
   \<and> file_after (extract_metadata mock_env [2, 0, 1] ''ARCHIVE1'' ''abc.json'' ''http'' fresh_world) ''ARCHIVE1.xml''
       = None"
proof -
  let ?c = "\<lparr>name = JStr ''c'', slc = ''ARCHIVE1'', offset = \<lparr>start = 20, stop = 30\<rparr>\<rparr>"
  let ?ms = "[\<lparr>name = JStr ''a'', slc = ''ARCHIVE1'', offset = \<lparr>start = 0, stop = 10\<rparr>\<rparr>,
          \<lparr>name = JStr ''b'', slc = ''ARCHIVE1'', offset = \<lparr>start = 10, stop = 20\<rparr>\<rparr>, ?c]"
  have ord: "completion_order (length ?ms) [2, 0, 1]"
    by (simp add: completion_order_def upt_rec numeral_3_eq_3)
  have mem: "?c \<in> set ?ms" by simp
  have bad: "snd (extract_bytes mock_env ''https://archive.example/SLC/ARCHIVE1.zip'' (offset ?c) Session)
     = Inl (TransportExc ''connection reset'')"
    by (simp add: mock_fetch_http)
  show ?thesis
    using extract_metadata_fail_fast [OF mock_url_archive1 mock_entries_abc mock_select_http ord mem bad, of fresh_world]
      completion_order_c_first mock_run_abc
    by (auto simp: mock_fetch_http file_after_def outcome_def fresh_world_def no_files_def)
qed

subsection \<open>Invalid ranges\<close>

text \<open>
  C3. If an entry of the first archive of the offset table has
  \<open>offset_stop \<le> offset_start\<close>, then constructing its \<open>Offset\<close> raises, so
  \<open>json_to_metadata_entries\<close> raises and \<open>extract_metadata\<close> raises with the world
  unchanged: no request has been sent and no file written. The constructor is the one
  modelled from the specification.
\<close>

theorem invalid_range_rejected:
  assumes "load_json E path = Inr (JDict ((k, JDict d) # rest))"
    and "map_of d key = Some (JDict attrs)"
    and "map_of attrs ''offset_start'' = Some (JInt a)"
    and "map_of attrs ''offset_stop'' = Some (JInt b)"
    and "b \<le> a"
  shows "Offset (JInt a) (JInt b) = Inl ConfigError
       \<and> (\<exists>e. json_to_metadata_entries E path = Inl e)
       \<and> (\<exists>e. extract_metadata E sch slc_name path strategy w = Some (Inl e, w))"
proof -
  have mem: "JStr key \<in> set (map (\<lambda>kv. JStr (fst kv)) d)"
    using map_of_SomeD [OF assms(2)] by force
  have "\<exists>e. append_entries (JDict d) k (map (\<lambda>kv. JStr (fst kv)) d) [] = Inl e"
    by (rule append_entries_rejects [OF mem, of _ "JDict attrs" a b])
       (simp_all add: assms)
  then obtain e where fail: "json_to_metadata_entries E path = Inl e"
    using entries_of_table [OF assms(1)] by auto
  from entries_failure_aborts [OF fail] show ?thesis
    using fail assms(5) by auto
qed

text \<open>An offset table whose second fragment is the empty range \<open>[20, 20)\<close>.\<close>

theorem invalid_range_rejected_witness:
  "load_json mock_env ''backwards.json''
     = Inr (JDict ((''ARCHIVE1'', JDict [(''a'', fragment 0 10), (''b'', fragment 20 20)]) # []))
   \<and> (20::int) \<le> 20
   \<and> Offset (JInt 20) (JInt 20) = Inl ConfigError
   \<and> extract_metadata mock_env [0, 1] ''ARCHIVE1'' ''backwards.json'' ''http'' fresh_world
       = Some (Inl ConfigError, fresh_world)"
proof -
  have tbl: "load_json mock_env ''backwards.json''
     = Inr (JDict ((''ARCHIVE1'', JDict [(''a'', fragment 0 10), (''b'', fragment 20 20)]) # []))"
    by (simp add: mock_env_def mock_load_json_def table_backwards_def)
  have ent: "map_of [(''a'', fragment 0 10), (''b'', fragment 20 20)] ''b''
      = Some (JDict [(''offset_start'', JInt 20), (''offset_stop'', JInt 20)])"
    by (simp add: fragment_def)
  have a: "map_of [(''offset_start'', JInt 20), (''offset_stop'', JInt 20)] ''offset_start'' = Some (JInt 20)"
    by simp
  have b: "map_of [(''offset_start'', JInt 20), (''offset_stop'', JInt 20)] ''offset_stop'' = Some (JInt 20)"
    by simp
  have le: "(20::int) \<le> 20" by simp
  show ?thesis
    using invalid_range_rejected [OF tbl ent a b le, of "[0, 1]" "''ARCHIVE1''" "''http''" fresh_world] tbl
      mock_run_backwards
    by simp
qed

subsection \<open>The range on the wire\<close>

text \<open>
  C4. For an offset with \<open>0 \<le> start < stop\<close> and either supported client,
  \<open>extract_bytes\<close> sends exactly one request; its range is \<open>bytes=start-(stop - 1)\<close> in
  decimal, which the protocol reads as the inclusive positions \<open>start\<close> to \<open>stop - 1\<close>,
  and these are the positions of the half-open interval \<open>[start, stop)\<close>.
\<close>

theorem range_header_inclusive:
  assumes "0 \<le> start off" and "start off < stop off" and "cl \<noteq> OtherObject"
  shows "\<exists>req. fst (extract_bytes E url off cl) = [req]
           \<and> range_of req = ''bytes='' @ digits (nat (start off)) @ ''-'' @ digits (nat (stop off - 1))
           \<and> wire_range (range_of req) = Some (nat (start off), nat (stop off - 1))
           \<and> {int (nat (start off)) .. int (nat (stop off - 1))} = {start off ..< stop off}"
proof -
  have hdr: "range_header off = ''bytes='' @ digits (nat (start off)) @ ''-'' @ digits (nat (stop off - 1))"
    using assms(1,2) by (simp add: range_header_def str_int_def)
  have rd: "wire_range (range_header off) = Some (nat (start off), nat (stop off - 1))"
    unfolding hdr by (rule wire_range_digits)
  have iv: "{int (nat (start off)) .. int (nat (stop off - 1))} = {start off ..< stop off}"
    using assms(1,2) by auto
  show ?thesis
  proof (cases cl)
    case (BaseClient ak sk tok)
    then show ?thesis using hdr rd iv by (simp add: extract_bytes_def)
  next
    case Session
    then show ?thesis using hdr rd iv by (simp add: extract_bytes_def)
  next
    case OtherObject
    then show ?thesis using assms(3) by simp
  qed
qed

text \<open>The second fragment of the mock archive: \<open>[10, 20)\<close> is requested as \<open>bytes=10-19\<close>.\<close>

theorem range_header_inclusive_witness:
  "(0::int) \<le> 10 \<and> (10::int) < 20 \<and> Session \<noteq> OtherObject
   \<and> fst (extract_bytes mock_env ''https://archive.example/SLC/ARCHIVE1.zip'' \<lparr>start = 10, stop = 20\<rparr> Session)
       = [HttpGet ''https://archive.example/SLC/ARCHIVE1.zip'' ''bytes=10-19'']
   \<and> wire_range ''bytes=10-19'' = Some (10, 19)"
proof -
  have a: "0 \<le> start \<lparr>start = 10, stop = 20\<rparr>" by simp
  have b: "start \<lparr>start = 10, stop = 20\<rparr> < stop \<lparr>start = 10, stop = 20\<rparr>" by simp
  have c: "Session \<noteq> OtherObject" by simp
  from range_header_inclusive [OF a b c, of mock_env "''https://archive.example/SLC/ARCHIVE1.zip''"]
  show ?thesis
    by (auto simp: extract_bytes_def mock_range_headers)
qed

subsection \<open>Failures of the transport\<close>

text \<open>
  C5, as stated, fails on the HTTP variant: the module never looks at the status of a
  response. Here the mock server answers a range beyond the archive with status 416 and
  an empty body; \<open>extract_bytes\<close> hands that body to the decoder and returns the empty
  byte string instead of raising.
\<close>

theorem http_error_status_decoded:
  "http_get mock_env ''https://archive.example/SLC/ARCHIVE1.zip'' (range_header \<lparr>start = 100, stop = 110\<rparr>)
     = Inr \<lparr>status_code = 416, content = []\<rparr>
   \<and> snd (extract_bytes mock_env ''https://archive.example/SLC/ARCHIVE1.zip'' \<lparr>start = 100, stop = 110\<rparr> Session)
       = decompress mock_env []
   \<and> snd (extract_bytes mock_env ''https://archive.example/SLC/ARCHIVE1.zip'' \<lparr>start = 100, stop = 110\<rparr> Session)
       = Inr []"
proof -
  have hdr: "range_header \<lparr>start = 100, stop = 110\<rparr> = ''bytes=100-109''"
    by (simp add: range_header_def str_int_def digits.simps digit_char_def)
  show ?thesis
    by (simp add: hdr extract_bytes_def mock_env_def mock_http_get_def mock_decompress_def)
qed

text \<open>
  C5, amended. When the client library itself raises (\<open>session.get\<close> for HTTP;
  \<open>get_object\<close> or the read of the body for the object store), \<open>extract_bytes\<close> raises
  that exception, whatever the decoder would do: nothing is passed to it.
\<close>

theorem library_exception_fails_fetch:
  assumes "cl = Session \<and> http_get E url (range_header off) = Inl e
         \<or> cl = BaseClient ak sk tok
           \<and> (get_object E (ak, sk, tok) (BUCKET E) (path_name url) (range_header off) = Inl e
              \<or> get_object E (ak, sk, tok) (BUCKET E) (path_name url) (range_header off) = Inr (Inl e))"
  shows "snd (extract_bytes (E\<lparr>decompress := d\<rparr>) url off cl) = Inl e"
  using assms by (auto simp: extract_bytes_def)

text \<open>The third range of the mock archive, with a decoder that would accept anything.\<close>

theorem library_exception_fails_fetch_witness:
  "http_get mock_env ''https://archive.example/SLC/ARCHIVE1.zip'' (range_header \<lparr>start = 20, stop = 30\<rparr>)
     = Inl (TransportExc ''connection reset'')
   \<and> snd (extract_bytes (mock_env\<lparr>decompress := Inr\<rparr>) ''https://archive.example/SLC/ARCHIVE1.zip''
        \<lparr>start = 20, stop = 30\<rparr> Session) = Inl (TransportExc ''connection reset'')"
proof -
  have raised: "http_get mock_env ''https://archive.example/SLC/ARCHIVE1.zip'' (range_header \<lparr>start = 20, stop = 30\<rparr>)
     = Inl (TransportExc ''connection reset'')"
    by (simp add: mock_range_headers mock_env_def mock_http_get_def)
  then have "Session = Session \<and> http_get mock_env ''https://archive.example/SLC/ARCHIVE1.zip''
        (range_header \<lparr>start = 20, stop = 30\<rparr>) = Inl (TransportExc ''connection reset'')
     \<or> Session = BaseClient [] [] []
       \<and> (get_object mock_env ([], [], []) (BUCKET mock_env) (path_name ''https://archive.example/SLC/ARCHIVE1.zip'')
             (range_header \<lparr>start = 20, stop = 30\<rparr>) = Inl (TransportExc ''connection reset'')
          \<or> get_object mock_env ([], [], []) (BUCKET mock_env) (path_name ''https://archive.example/SLC/ARCHIVE1.zip'')
             (range_header \<lparr>start = 20, stop = 30\<rparr>) = Inr (Inl (TransportExc ''connection reset'')))"
    by simp
  from library_exception_fails_fetch [OF this, of Inr] raised
  show ?thesis by simp
qed

subsection \<open>Malformed and empty offset tables\<close>

text \<open>
  C6, as stated, fails for a table that lists no fragments: the operation does not
  raise at all.
\<close>

theorem no_fragments_not_rejected:
  "load_json mock_env ''no_fragments.json'' = Inr (JDict [(''ARCHIVE1'', JDict [])])
   \<and> outcome (extract_metadata mock_env [] ''ARCHIVE1'' ''no_fragments.json'' ''http'' fresh_world)
       = Some (Inr ())
   \<and> outcome (extract_metadata mock_env [] ''ARCHIVE1'' ''no_fragments.json'' ''http'' fresh_world)
       \<noteq> Some (Inl ConfigError)"
  by (simp add: outcome_def extract_metadata_def json_to_metadata_entries_def select_client_def
      executor_map_def mock_env_def mock_load_json_def mock_url_def table_no_fragments_def)

text \<open>
  C6, amended. Once the download URL is resolved, an offset table that cannot be opened
  or parsed makes \<open>extract_metadata\<close> raise the loader's exception, and a table with no
  archive key makes it raise \<open>IndexError\<close>; in both cases the world is unchanged, so no
  request has been sent.
\<close>

theorem unloadable_table_fails_before_fetch:
  assumes "get_download_url E slc_name = Inr url"
    and "load_json E path = Inl e \<or> load_json E path = Inr (JDict []) \<and> e = IndexError"
  shows "extract_metadata E sch slc_name path strategy w = Some (Inl e, w)"
proof -
  have "json_to_metadata_entries E path = Inl e"
    using assms(2) by (auto simp: json_to_metadata_entries_def)
  then show ?thesis
    using assms(1) by (simp add: extract_metadata_def)
qed

text \<open>The offset table \<open>{}\<close>.\<close>

theorem unloadable_table_fails_before_fetch_witness:
  "load_json mock_env ''empty.json'' = Inr (JDict [])
   \<and> extract_metadata mock_env [] ''ARCHIVE1'' ''empty.json'' ''http'' fresh_world
       = Some (Inl IndexError, fresh_world)"
proof -
  have tbl: "load_json mock_env ''empty.json'' = Inr (JDict [])"
    by (simp add: mock_env_def mock_load_json_def)
  then have "load_json mock_env ''empty.json'' = Inl IndexError
      \<or> load_json mock_env ''empty.json'' = Inr (JDict []) \<and> IndexError = IndexError"
    by simp
  from unloadable_table_fails_before_fetch [OF mock_url_archive1 this] tbl
  show ?thesis by simp
qed

subsection \<open>Only the first archive\<close>

text \<open>
  C8. Two offset tables that start with the same archive key and the same inner value
  give the same result, whatever follows in either; every entry built carries that
  first key as its archive name.
\<close>

theorem only_first_archive_used:
  assumes "load_json E path = Inr (JDict ((k, v) # rest))"
    and "load_json E' path' = Inr (JDict ((k, v) # rest'))"
  shows "json_to_metadata_entries E' path' = json_to_metadata_entries E path
       \<and> (\<forall>ms. json_to_metadata_entries E path = Inr ms \<longrightarrow> (\<forall>m \<in> set ms. slc m = k))"
proof -
  have same: "json_to_metadata_entries E' path' = json_to_metadata_entries E path"
    using entries_of_first_key [OF assms(1)] entries_of_first_key [OF assms(2)] by simp
  have "\<forall>m \<in> set ms. slc m = k" if ok: "json_to_metadata_entries E path = Inr ms" for ms
  proof (cases "iter v")
    case (Inl e)
    then show ?thesis
      using entries_of_first_key [OF assms(1)] ok by simp
  next
    case (Inr keys)
    then have "append_entries v k keys [] = Inr ms"
      using entries_of_first_key [OF assms(1)] ok by simp
    from append_entries_slc [OF this] show ?thesis by simp
  qed
  then show ?thesis using same by blast
qed

text \<open>A table with a second archive gives the two entries of the table without it.\<close>

theorem only_first_archive_used_witness:
  "load_json mock_env ''two_archives.json''
     = Inr (JDict ((''ARCHIVE1'', JDict [(''a'', fragment 0 10), (''b'', fragment 10 20)])
                    # [(''ARCHIVE2'', JDict [(''z'', fragment 0 5)])]))
   \<and> json_to_metadata_entries mock_env ''two_archives.json''
       = Inr [\<lparr>name = JStr ''a'', slc = ''ARCHIVE1'', offset = \<lparr>start = 0, stop = 10\<rparr>\<rparr>,
              \<lparr>name = JStr ''b'', slc = ''ARCHIVE1'', offset = \<lparr>start = 10, stop = 20\<rparr>\<rparr>]
   \<and> json_to_metadata_entries mock_env ''ab.json'' = json_to_metadata_entries mock_env ''two_archives.json''"
proof -
  have two: "load_json mock_env ''two_archives.json''
     = Inr (JDict ((''ARCHIVE1'', JDict [(''a'', fragment 0 10), (''b'', fragment 10 20)])
                    # [(''ARCHIVE2'', JDict [(''z'', fragment 0 5)])]))"
    by (simp add: mock_env_def mock_load_json_def table_two_archives_def)
  have one: "load_json mock_env ''ab.json''
     = Inr (JDict ((''ARCHIVE1'', JDict [(''a'', fragment 0 10), (''b'', fragment 10 20)]) # []))"
    by (simp add: mock_env_def mock_load_json_def table_ab_def)
  have ent: "json_to_metadata_entries mock_env ''two_archives.json''
       = Inr [\<lparr>name = JStr ''a'', slc = ''ARCHIVE1'', offset = \<lparr>start = 0, stop = 10\<rparr>\<rparr>,
              \<lparr>name = JStr ''b'', slc = ''ARCHIVE1'', offset = \<lparr>start = 10, stop = 20\<rparr>\<rparr>]"
    by (simp add: json_to_metadata_entries_def mock_env_def mock_load_json_def table_two_archives_def fragment_def)
  from only_first_archive_used [OF two one] two ent
  show ?thesis by simp
qed

subsection \<open>Unsupported clients and strategies\<close>

text \<open>
  C9. With a client that is neither a botocore client nor a requests session,
  \<open>extract_bytes\<close> sends nothing and raises \<open>UnboundLocalError\<close>. With a strategy other
  than \<open>'s3'\<close> and \<open>'http'\<close>, \<open>extract_metadata\<close> raises with the world unchanged: the
  exception of the URL provider or of the offset table if one of them raises, and
  \<open>UnboundLocalError\<close> otherwise.
\<close>

theorem unsupported_client_unbound:
  assumes "strategy \<noteq> ''s3''" and "strategy \<noteq> ''http''"
  shows "extract_bytes E url off OtherObject = ([], Inl UnboundLocalError)
       \<and> extract_metadata E sch slc_name path strategy w =
           Some (Inl (case get_download_url E slc_name of
                        Inl e \<Rightarrow> e
                      | Inr u \<Rightarrow> (case json_to_metadata_entries E path of
                                    Inl e \<Rightarrow> e
                                  | Inr ms \<Rightarrow> UnboundLocalError)), w)"
  using assms
  by (simp add: extract_bytes_def extract_metadata_def select_client_def split: sum.splits)

text \<open>The strategy \<open>'ftp'\<close> on the mock archive.\<close>

theorem unsupported_client_unbound_witness:
  "''ftp'' \<noteq> ''s3'' \<and> ''ftp'' \<noteq> ''http''
   \<and> extract_bytes mock_env ''https://archive.example/SLC/ARCHIVE1.zip'' \<lparr>start = 0, stop = 10\<rparr> OtherObject
       = ([], Inl UnboundLocalError)
   \<and> extract_metadata mock_env [1, 0] ''ARCHIVE1'' ''ab.json'' ''ftp'' fresh_world
       = Some (Inl UnboundLocalError, fresh_world)"
proof -
  have a: "''ftp'' \<noteq> ''s3''" by simp
  have b: "''ftp'' \<noteq> ''http''" by simp
  from unsupported_client_unbound [OF a b, of mock_env "''https://archive.example/SLC/ARCHIVE1.zip''"
      "\<lparr>start = 0, stop = 10\<rparr>" "[1, 0]" "''ARCHIVE1''" "''ab.json''" fresh_world]
  show ?thesis by (simp add: mock_url_archive1 mock_entries_ab)
qed

subsection \<open>A table without fragments\<close>

text \<open>
  C10. When the URL is resolved, a client is selected and the first archive of the
  offset table has an empty mapping, \<open>extract_metadata\<close> returns normally under every
  schedule; the only change to the world is the file \<open><slc_name>.xml\<close>, which is empty:
  no request is sent.
\<close>

theorem no_fragments_empty_file:
  assumes "get_download_url E slc_name = Inr url"
    and "load_json E path = Inr (JDict ((k, JDict []) # rest))"
    and "select_client E strategy = Inr (Some cl)"
  shows "extract_metadata E sch slc_name path strategy w =
           Some (Inr (), w\<lparr>files := (files w)(slc_name @ ''.xml'' \<mapsto> [])\<rparr>)"
proof -
  have ent: "json_to_metadata_entries E path = Inr []"
    using entries_of_table [OF assms(2)] by simp
  have pool: "executor_map (\<lambda>off. extract_bytes E url off cl) [] sch = ([], [])"
    by (induction sch) (simp_all add: executor_map_def complete_def)
  show ?thesis
    using assms(1,3) ent pool by (simp add: extract_metadata_def)
qed

text \<open>The default strategy \<open>'s3'\<close> on the mock table without fragments.\<close>

theorem no_fragments_empty_file_witness:
  "load_json mock_env ''no_fragments.json'' = Inr (JDict ((''ARCHIVE1'', JDict []) # []))
   \<and> select_client mock_env ''s3'' = Inr (Some (BaseClient ''id'' ''key'' ''token''))
   \<and> extract_metadata mock_env [] ''ARCHIVE1'' ''no_fragments.json'' ''s3'' fresh_world
       = Some (Inr (), fresh_world\<lparr>files := (files fresh_world)(''ARCHIVE1.xml'' \<mapsto> [])\<rparr>)
   \<and> requests (fresh_world\<lparr>files := (files fresh_world)(''ARCHIVE1.xml'' \<mapsto> [])\<rparr>) = []"
proof -
  have tbl: "load_json mock_env ''no_fragments.json'' = Inr (JDict ((''ARCHIVE1'', JDict []) # []))"
    by (simp add: mock_env_def mock_load_json_def table_no_fragments_def)
  have sel: "select_client mock_env ''s3'' = Inr (Some (BaseClient ''id'' ''key'' ''token''))"
    by (simp add: select_client_def mock_env_def)
  from no_fragments_empty_file [OF mock_url_archive1 tbl sel, of "[]" fresh_world] tbl sel
  show ?thesis by (simp add: fresh_world_def)
qed

end
